theory Spec2Isabelle
  imports Main
begin

section \<open>Values shared by the web application and the Google adapter\<close>

text \<open>
  Python exceptions (subclasses of \<open>Exception\<close>) are values carrying their message;
  a computation that may raise returns \<open>exn + 'a\<close>, with \<open>Inl\<close> the raised exception.
\<close>

datatype exn = Exception string

fun str_exn :: "exn \<Rightarrow> string" where
  "str_exn (Exception m) = m"

text \<open>
  JSON documents as Python sees them after parsing, and as \<open>jsonify\<close> sends them.
  Floating-point numbers are left out: no handler computes with them.
\<close>

datatype json =
    JNull
  | JBool bool
  | JInt int
  | JStr string
  | JArr "json list"
  | JObj "(string \<times> json) list"

text \<open>Python truthiness of a parsed JSON value, as tested by \<open>if not json_data\<close>.\<close>

fun py_truthy :: "json \<Rightarrow> bool" where
  "py_truthy JNull = False"
| "py_truthy (JBool b) = b"
| "py_truthy (JInt i) = (i \<noteq> 0)"
| "py_truthy (JStr s) = (s \<noteq> [])"
| "py_truthy (JArr xs) = (xs \<noteq> [])"
| "py_truthy (JObj kvs) = (kvs \<noteq> [])"

text \<open>Truthiness of an optional string: \<open>None\<close> and the empty string are falsy.\<close>

fun str_truthy :: "string option \<Rightarrow> bool" where
  "str_truthy None = False"
| "str_truthy (Some s) = (s \<noteq> [])"

section \<open>The Google adapter object (services/google_service.py)\<close>

text \<open>
  A built API client (\<open>build('drive', 'v3', ...)\<close>) is an opaque handle; the attribute
  holding it is \<open>None\<close> until authentication has built it.
\<close>

datatype resource = Resource string

datatype credentials = Credentials "string option"

record google_service =
  parent_folder_id :: "string option"
  owner_email :: "string option"
  service_drive :: "resource option"
  service_sheets :: "resource option"
  credentials :: "credentials option"

text \<open>
  Responses of the Drive and Sheets APIs are dictionaries of strings. The remote side
  is a parameter: for each request the adapter can send, whether \<open>.execute()\<close> raises or
  what it returns. Every operation returns, next to its result, the remote calls it
  made, in order. Log lines are not modelled.
\<close>

type_synonym dict = "(string \<times> string) list"

record file_metadata =
  name :: string
  mime_type :: "string option"
  parents :: "string list"

record about_response =
  storage_quota :: "dict option"
  user :: "dict option"

datatype remote_call =
    DriveFilesCreate file_metadata "string option"
  | DrivePermissionsCreate "string option" dict
  | DriveFilesGet "string option"
  | DriveAboutGet
  | SheetsValuesAppend string string "string list"

record remote =
  files_create :: "file_metadata \<Rightarrow> string option \<Rightarrow> exn + dict"
  permissions_create :: "string option \<Rightarrow> dict \<Rightarrow> exn + dict"
  files_get :: "string option \<Rightarrow> exn + dict"
  about_get :: "exn + about_response"
  values_append :: "string \<Rightarrow> string \<Rightarrow> string list \<Rightarrow> exn + dict"
  media_file_upload :: "string \<Rightarrow> exn + string"

text \<open>
  \<open>try: ... except Exception as e: return v\<close> around a body that either raises or
  returns, with the calls made up to that point.
\<close>

definition except_return :: "(exn + 'a) \<times> remote_call list \<Rightarrow> 'a \<Rightarrow> (exn + 'a) \<times> remote_call list" where
  "except_return r v = (case r of (Inl e, calls) \<Rightarrow> (Inr v, calls) | (Inr x, calls) \<Rightarrow> (Inr x, calls))"

text \<open>\<open>_set_folder_permissions\<close>: the ownership transfer, its failure swallowed.\<close>

definition set_folder_permissions_try ::
  "remote \<Rightarrow> google_service \<Rightarrow> string option \<Rightarrow> (exn + unit) \<times> remote_call list" where
  "set_folder_permissions_try rem gs folder_id =
     (case owner_email gs of
        None \<Rightarrow> (Inr (), [])
      | Some email \<Rightarrow>
          if email = [] then (Inr (), [])
          else
            (let owner_permission = [(''type'', ''user''), (''role'', ''owner''),
                                     (''emailAddress'', email)]
             in case service_drive gs of
                  None \<Rightarrow> (Inl (Exception ''NoneType object has no attribute permissions''), [])
                | Some drv \<Rightarrow>
                    (case permissions_create rem folder_id owner_permission of
                       Inl e \<Rightarrow> (Inl e, [DrivePermissionsCreate folder_id owner_permission])
                     | Inr p \<Rightarrow> (Inr (), [DrivePermissionsCreate folder_id owner_permission]))))"

definition set_folder_permissions ::
  "remote \<Rightarrow> google_service \<Rightarrow> string option \<Rightarrow> (exn + unit) \<times> remote_call list" where
  "set_folder_permissions rem gs folder_id =
     except_return (set_folder_permissions_try rem gs folder_id) ()"

text \<open>\<open>[parent_id] if parent_id else []\<close>.\<close>

fun parents_of :: "string option \<Rightarrow> string list" where
  "parents_of None = []"
| "parents_of (Some s) = (if s \<noteq> [] then [s] else [])"

text \<open>The metadata \<open>create_folder\<close> sends: the given parent, or else the configured one.\<close>

definition folder_metadata :: "google_service \<Rightarrow> string \<Rightarrow> string option \<Rightarrow> file_metadata" where
  "folder_metadata gs folder_name parent_arg =
     (let parent_id = (if str_truthy parent_arg then parent_arg else parent_folder_id gs)
      in \<lparr>name = folder_name,
          mime_type = Some ''application/vnd.google-apps.folder'',
          parents = parents_of parent_id\<rparr>)"

text \<open>\<open>create_folder\<close>: the body of its \<open>try\<close>, then the function with its handler.\<close>

definition create_folder_try ::
  "remote \<Rightarrow> google_service \<Rightarrow> string \<Rightarrow> string option \<Rightarrow> (exn + string option) \<times> remote_call list" where
  "create_folder_try rem gs folder_name parent_arg =
     (case service_drive gs of
        None \<Rightarrow> (Inr None, [])
      | Some drv \<Rightarrow>
          (let md = folder_metadata gs folder_name parent_arg
           in case files_create rem md None of
                Inl e \<Rightarrow> (Inl e, [DriveFilesCreate md None])
              | Inr folder \<Rightarrow>
                  (let folder_id = map_of folder ''id'' in
                   case set_folder_permissions rem gs folder_id of
                     (Inl e, calls) \<Rightarrow> (Inl e, DriveFilesCreate md None # calls)
                   | (Inr u, calls) \<Rightarrow> (Inr folder_id, DriveFilesCreate md None # calls))))"

definition create_folder ::
  "remote \<Rightarrow> google_service \<Rightarrow> string \<Rightarrow> string option \<Rightarrow> (exn + string option) \<times> remote_call list" where
  "create_folder rem gs folder_name parent_arg =
     except_return (create_folder_try rem gs folder_name parent_arg) None"

text \<open>\<open>upload_to_drive\<close>.\<close>

definition upload_to_drive_try ::
  "remote \<Rightarrow> google_service \<Rightarrow> string \<Rightarrow> string \<Rightarrow> string \<Rightarrow> (exn + string option) \<times> remote_call list" where
  "upload_to_drive_try rem gs file_path file_name folder_id =
     (case service_drive gs of
        None \<Rightarrow> (Inr None, [])
      | Some drv \<Rightarrow>
          (let file_metadata = \<lparr>name = file_name, mime_type = None, parents = [folder_id]\<rparr>
           in case media_file_upload rem file_path of
                Inl e \<Rightarrow> (Inl e, [])
              | Inr media \<Rightarrow>
                  (case files_create rem file_metadata (Some media) of
                     Inl e \<Rightarrow> (Inl e, [DriveFilesCreate file_metadata (Some media)])
                   | Inr uploaded_file \<Rightarrow>
                       (Inr (map_of uploaded_file ''id''),
                        [DriveFilesCreate file_metadata (Some media)]))))"

definition upload_to_drive ::
  "remote \<Rightarrow> google_service \<Rightarrow> string \<Rightarrow> string \<Rightarrow> string \<Rightarrow> (exn + string option) \<times> remote_call list" where
  "upload_to_drive rem gs file_path file_name folder_id =
     except_return (upload_to_drive_try rem gs file_path file_name folder_id) None"

definition get_folder_link :: "string \<Rightarrow> string" where
  "get_folder_link folder_id = ''https://drive.google.com/drive/folders/'' @ folder_id"

text \<open>
  \<open>update_spreadsheet\<close>; the row and the range come from the \<open>spreadsheet_config\<close>
  collaborator, whose calls may raise.
\<close>

definition update_spreadsheet_try ::
  "remote \<Rightarrow> google_service \<Rightarrow> string \<Rightarrow> exn + string list \<Rightarrow> exn + string \<Rightarrow> (exn + bool) \<times> remote_call list" where
  "update_spreadsheet_try rem gs spreadsheet_id prepare_row_data get_append_range =
     (case service_sheets gs of
        None \<Rightarrow> (Inr False, [])
      | Some sh \<Rightarrow>
          (case prepare_row_data of
             Inl e \<Rightarrow> (Inl e, [])
           | Inr row_data \<Rightarrow>
               (case get_append_range of
                  Inl e \<Rightarrow> (Inl e, [])
                | Inr rng \<Rightarrow>
                    (case values_append rem spreadsheet_id rng row_data of
                       Inl e \<Rightarrow> (Inl e, [SheetsValuesAppend spreadsheet_id rng row_data])
                     | Inr res \<Rightarrow> (Inr True, [SheetsValuesAppend spreadsheet_id rng row_data])))))"

definition update_spreadsheet ::
  "remote \<Rightarrow> google_service \<Rightarrow> string \<Rightarrow> exn + string list \<Rightarrow> exn + string \<Rightarrow> (exn + bool) \<times> remote_call list" where
  "update_spreadsheet rem gs spreadsheet_id prepare_row_data get_append_range =
     except_return (update_spreadsheet_try rem gs spreadsheet_id prepare_row_data get_append_range) False"

text \<open>
  The method \<open>GoogleService.test_service_account_access\<close> (prefixed here, since app.py
  has a function of the same name): Drive is tested by fetching the parent folder,
  inside an inner \<open>try\<close>; Sheets by looking at the handle only.
\<close>

definition drive_access_test :: "remote \<Rightarrow> google_service \<Rightarrow> bool \<times> remote_call list" where
  "drive_access_test rem gs =
     (case service_drive gs of
        None \<Rightarrow> (False, [])
      | Some drv \<Rightarrow>
          (case files_get rem (parent_folder_id gs) of
             Inl e \<Rightarrow> (False, [DriveFilesGet (parent_folder_id gs)])
           | Inr folder_info \<Rightarrow> (True, [DriveFilesGet (parent_folder_id gs)])))"

definition gs_test_service_account_access ::
  "remote \<Rightarrow> google_service \<Rightarrow> (exn + bool) \<times> remote_call list" where
  "gs_test_service_account_access rem gs =
     except_return
       (let (drive_ok, calls) = drive_access_test rem gs;
            sheets_ok = (service_sheets gs \<noteq> None)
        in (Inr (drive_ok \<and> sheets_ok), calls))
       False"

text \<open>\<open>get_service_account_info\<close> and \<open>cleanup_service_account_files\<close> make no remote call.\<close>

definition SCOPES :: "string list" where
  "SCOPES = [''https://www.googleapis.com/auth/drive'',
             ''https://www.googleapis.com/auth/spreadsheets'']"

definition get_service_account_info :: "google_service \<Rightarrow> json option" where
  "get_service_account_info gs =
     (case credentials gs of
        None \<Rightarrow> None
      | Some (Credentials email) \<Rightarrow>
          Some (JObj [(''service_account_email'',
                        JStr (case email of None \<Rightarrow> ''Unknown'' | Some a \<Rightarrow> a)),
                      (''drive_service'',
                        JStr (if service_drive gs \<noteq> None then ''active'' else ''inactive'')),
                      (''sheets_service'',
                        JStr (if service_sheets gs \<noteq> None then ''active'' else ''inactive'')),
                      (''scopes'', JArr (map JStr SCOPES))]))"

definition cleanup_service_account_files :: "google_service \<Rightarrow> bool" where
  "cleanup_service_account_files gs = True"

text \<open>\<open>dict.get(key, default)\<close>.\<close>

definition dict_get :: "dict \<Rightarrow> string \<Rightarrow> string \<Rightarrow> string" where
  "dict_get d k dflt = (case map_of d k of None \<Rightarrow> dflt | Some v \<Rightarrow> v)"

text \<open>
  \<open>get_drive_quota_info\<close>: its handler does not return \<open>None\<close> but a dictionary saying
  that no quota information is available.
\<close>

definition quota_unavailable :: dict where
  "quota_unavailable = [(''type'', ''service_account''),
                         (''note'', ''Quota information not available for service accounts'')]"

definition get_drive_quota_info_try ::
  "remote \<Rightarrow> google_service \<Rightarrow> (exn + dict option) \<times> remote_call list" where
  "get_drive_quota_info_try rem gs =
     (case service_drive gs of
        None \<Rightarrow> (Inr None, [])
      | Some drv \<Rightarrow>
          (case about_get rem of
             Inl e \<Rightarrow> (Inl e, [DriveAboutGet])
           | Inr about \<Rightarrow>
               (let user_info = (case user about of None \<Rightarrow> [] | Some d \<Rightarrow> d)
                in (Inr (Some [(''type'', ''service_account''),
                                (''service_account'', dict_get user_info ''emailAddress'' ''Unknown''),
                                (''note'', ''Service Account quotas are managed differently than personal accounts'')]),
                    [DriveAboutGet]))))"

definition get_drive_quota_info ::
  "remote \<Rightarrow> google_service \<Rightarrow> (exn + dict option) \<times> remote_call list" where
  "get_drive_quota_info rem gs =
     except_return (get_drive_quota_info_try rem gs) (Some quota_unavailable)"

text \<open>Whether a remote call goes to the Sheets API.\<close>

fun is_sheets_call :: "remote_call \<Rightarrow> bool" where
  "is_sheets_call (SheetsValuesAppend sid rng row) = True"
| "is_sheets_call c = False"

section \<open>The web application (app.py)\<close>

text \<open>
  The class \<open>TelegramBot\<close> lives in \<open>bot.py\<close>; the application reads two of its
  attributes: \<open>google_service\<close>, and \<open>application.bot\<close>, whose evaluation may raise.
\<close>

datatype tg_handle = TgBot string

record telegram_bot =
  bot_google_service :: "google_service option"
  application_bot :: "exn + tg_handle"

datatype update = Update json

text \<open>A coroutine handed to \<open>asyncio.run_coroutine_threadsafe\<close>.\<close>

datatype task = ProcessUpdate update | InitializeBot

text \<open>
  The event loop of the worker thread: whether it is closed, and the coroutines
  submitted to it that have not run yet, oldest first.
\<close>

record event_loop =
  closed :: bool
  tasks :: "task list"

text \<open>The module's global variables \<open>bot\<close>, \<open>loop\<close> and \<open>bot_ready\<close>.\<close>

record app_state =
  g_bot :: "telegram_bot option"
  g_loop :: "event_loop option"
  bot_ready :: bool

definition initial_state :: app_state where
  "initial_state = \<lparr>g_bot = None, g_loop = None, bot_ready = False\<rparr>"

text \<open>
  What a request brings: the outcome of \<open>request.get_json(force=True)\<close> on its body
  (Flask raises \<open>BadRequest\<close> when the body is not JSON), and the outcome of
  \<open>Update.de_json\<close> on a parsed document.
\<close>

record request =
  get_json :: "exn + json"
  de_json :: "json \<Rightarrow> tg_handle \<Rightarrow> exn + update"

record response =
  status_code :: nat
  body :: json

definition jsonify :: "(string \<times> json) list \<Rightarrow> nat \<Rightarrow> response" where
  "jsonify d code = \<lparr>status_code = code, body = JObj d\<rparr>"

text \<open>
  \<open>asyncio.run_coroutine_threadsafe(coro, loop)\<close>: the coroutine is queued on the loop
  and the call returns at once; a closed loop raises \<open>RuntimeError\<close>.
\<close>

definition run_coroutine_threadsafe :: "task \<Rightarrow> event_loop \<Rightarrow> exn + event_loop" where
  "run_coroutine_threadsafe t l =
     (if closed l then Inl (Exception ''Event loop is closed'')
      else Inr (l\<lparr>tasks := tasks l @ [t]\<rparr>))"

text \<open>\<open>not loop or loop.is_closed()\<close>, the second guard of the webhook.\<close>

definition loop_unavailable :: "event_loop option \<Rightarrow> bool" where
  "loop_unavailable lo = (case lo of None \<Rightarrow> True | Some l \<Rightarrow> closed l)"

text \<open>
  The inner \<open>try\<close> block of \<open>webhook\<close>: evaluate \<open>bot.application.bot\<close>, build the update
  and queue its processing. Each step may raise; on \<open>None\<close> the attribute access and
  the submission raise as Python does.
\<close>

definition webhook_dispatch ::
  "telegram_bot option \<Rightarrow> event_loop option \<Rightarrow> request \<Rightarrow> json \<Rightarrow> exn + event_loop" where
  "webhook_dispatch bo lo rq json_data =
     (case bo of
        None \<Rightarrow> Inl (Exception ''NoneType object has no attribute application'')
      | Some b \<Rightarrow>
          (case application_bot b of
             Inl e \<Rightarrow> Inl e
           | Inr h \<Rightarrow>
               (case de_json rq json_data h of
                  Inl e \<Rightarrow> Inl e
                | Inr u \<Rightarrow>
                    (case lo of
                       None \<Rightarrow> Inl (Exception ''NoneType object has no attribute call_soon_threadsafe'')
                     | Some l \<Rightarrow> run_coroutine_threadsafe (ProcessUpdate u) l))))"

text \<open>
  The handler of \<open>POST /webhook\<close>: the response and the globals afterwards. An
  exception of \<open>get_json\<close> is outside the inner \<open>try\<close> and reaches the outer handler.
\<close>

definition webhook :: "app_state \<Rightarrow> request \<Rightarrow> response \<times> app_state" where
  "webhook st rq =
     (if \<not> bot_ready st \<or> g_bot st = None
      then (jsonify [(''status'', JStr ''bot_not_ready'')] 503, st)
      else if loop_unavailable (g_loop st)
      then (jsonify [(''status'', JStr ''loop_error'')] 503, st)
      else
        (case get_json rq of
           Inl e \<Rightarrow>
             (jsonify [(''status'', JStr ''error''), (''message'', JStr (str_exn e))] 500, st)
         | Inr json_data \<Rightarrow>
             if \<not> py_truthy json_data
             then (jsonify [(''status'', JStr ''invalid_data'')] 400, st)
             else
               (case webhook_dispatch (g_bot st) (g_loop st) rq json_data of
                  Inl parse_error \<Rightarrow> (jsonify [(''status'', JStr ''parse_error'')] 400, st)
                | Inr l' \<Rightarrow> (jsonify [(''status'', JStr ''ok'')] 200, st\<lparr>g_loop := Some l'\<rparr>))))"

text \<open>The coroutines waiting on the execution context (none when there is no loop).\<close>

definition pending :: "app_state \<Rightarrow> task list" where
  "pending st = (case g_loop st of None \<Rightarrow> [] | Some l \<Rightarrow> tasks l)"

subsection \<open>The other handlers\<close>

text \<open>The configuration read from the environment when the module is loaded.\<close>

record config =
  SPREADSHEET_ID :: string
  SHEET_NAME :: string

text \<open>\<open>bot and bot.google_service\<close>: the adapter, when both are there.\<close>

definition bot_service :: "app_state \<Rightarrow> google_service option" where
  "bot_service st = (case g_bot st of None \<Rightarrow> None | Some b \<Rightarrow> bot_google_service b)"

definition opt_json :: "json option \<Rightarrow> json" where
  "opt_json v = (case v of None \<Rightarrow> JNull | Some j \<Rightarrow> j)"

definition dict_json :: "dict \<Rightarrow> json" where
  "dict_json d = JObj (map (\<lambda>(k, v). (k, JStr v)) d)"

text \<open>The module-level \<open>test_service_account_access\<close> of app.py.\<close>

definition test_service_account_access :: "remote \<Rightarrow> app_state \<Rightarrow> bool \<times> remote_call list" where
  "test_service_account_access rem st =
     (case bot_service st of
        None \<Rightarrow> (False, [])
      | Some gs \<Rightarrow>
          (case gs_test_service_account_access rem gs of
             (Inl e, calls) \<Rightarrow> (False, calls)
           | (Inr test_result, calls) \<Rightarrow> (test_result, calls)))"

definition index :: "config \<Rightarrow> app_state \<Rightarrow> response" where
  "index cfg st =
     (let system_info =
            [(''status'', JStr ''running''),
             (''bot_ready'', JBool (bot_ready st)),
             (''loop_running'', JBool (\<not> loop_unavailable (g_loop st))),
             (''message'', JStr ''Telegram Bot with Service Account (Drive & Sheets)''),
             (''spreadsheet_config'',
                JObj [(''spreadsheet_id'', JStr (SPREADSHEET_ID cfg)),
                      (''sheet_name'', JStr (SHEET_NAME cfg))]),
             (''services'',
                JObj [(''drive'', JStr ''service_account''),
                      (''sheets'', JStr ''service_account'')])]
      in case bot_service st of
           None \<Rightarrow> jsonify system_info 200
         | Some gs \<Rightarrow>
             (case get_service_account_info gs of
                None \<Rightarrow> jsonify system_info 200
              | Some service_info \<Rightarrow>
                  if py_truthy service_info
                  then jsonify (system_info @ [(''service_account_info'', service_info)]) 200
                  else jsonify system_info 200))"

definition health :: "app_state \<Rightarrow> response" where
  "health st =
     jsonify
       [(''status'', JStr (if bot_ready st then ''healthy'' else ''initializing'')),
        (''bot'', JStr (if bot_ready st then ''ready'' else ''not_ready'')),
        (''loop'', JStr (if \<not> loop_unavailable (g_loop st) then ''running'' else ''not_running'')),
        (''services'',
           JObj [(''drive_service_account'',
                    JStr (case bot_service st of
                            None \<Rightarrow> ''not_ready''
                          | Some gs \<Rightarrow> if service_drive gs \<noteq> None then ''ready'' else ''not_ready'')),
                 (''sheets_service_account'',
                    JStr (case bot_service st of
                            None \<Rightarrow> ''not_ready''
                          | Some gs \<Rightarrow> if service_sheets gs \<noteq> None then ''ready'' else ''not_ready''))])]
       200"

definition error_response :: "exn \<Rightarrow> response" where
  "error_response e = jsonify [(''status'', JStr ''error''), (''message'', JStr (str_exn e))] 500"

definition test_service_account_endpoint :: "remote \<Rightarrow> app_state \<Rightarrow> response" where
  "test_service_account_endpoint rem st =
     (case bot_service st of
        None \<Rightarrow> jsonify [(''status'', JStr ''error''),
                          (''message'', JStr ''Bot or Google service not available'')] 503
      | Some gs \<Rightarrow>
          (let access_test = fst (test_service_account_access rem st);
               service_account_info = get_service_account_info gs
           in case fst (get_drive_quota_info rem gs) of
                Inl e \<Rightarrow> error_response e
              | Inr quota_info \<Rightarrow>
                  jsonify [(''status'', JStr (if access_test then ''success'' else ''failed'')),
                           (''service_account_working'', JBool access_test),
                           (''service_account_info'', opt_json service_account_info),
                           (''quota_info'', opt_json (map_option dict_json quota_info)),
                           (''message'', JStr ''Service Account test completed'')] 200))"

definition cleanup_endpoint :: "app_state \<Rightarrow> response" where
  "cleanup_endpoint st =
     (case bot_service st of
        None \<Rightarrow> jsonify [(''status'', JStr ''error''),
                          (''message'', JStr ''Bot or Google service not available'')] 503
      | Some gs \<Rightarrow>
          (let cleanup_result = cleanup_service_account_files gs
           in jsonify [(''status'', JStr ''success''),
                       (''message'', JStr ''Service Account manages its own files''),
                       (''note'', JStr ''Files are owned by service account - cleanup handled automatically'')]
                200))"

text \<open>
  The routes. Only \<open>webhook\<close> touches a global (it queues on the loop); the four
  \<open>GET\<close> handlers declare no global and leave the state as it is.
\<close>

datatype http_request =
    GetIndex
  | GetHealth
  | GetTestServiceAccount
  | GetCleanup
  | PostWebhook request

fun handle :: "config \<Rightarrow> remote \<Rightarrow> app_state \<Rightarrow> http_request \<Rightarrow> response \<times> app_state" where
  "handle cfg rem st GetIndex = (index cfg st, st)"
| "handle cfg rem st GetHealth = (health st, st)"
| "handle cfg rem st GetTestServiceAccount = (test_service_account_endpoint rem st, st)"
| "handle cfg rem st GetCleanup = (cleanup_endpoint st, st)"
| "handle cfg rem st (PostWebhook rq) = webhook st rq"

subsection \<open>Startup\<close>

text \<open>
  What startup depends on and the program does not decide: whether the worker thread
  has stored its loop in the global when the half-second sleep ends, the outcome of
  the \<open>TelegramBot\<close> constructor, the outcome of \<open>initialize_application\<close>, and whether
  the initialisation finishes within the 60 seconds \<open>future.result\<close> waits.
\<close>

record startup_env =
  loop_created_in_time :: bool
  bot_ctor :: "exn + telegram_bot"
  initialize_application :: "exn + bool"
  init_in_time :: bool

definition start_event_loop :: "startup_env \<Rightarrow> app_state \<Rightarrow> bool \<times> app_state" where
  "start_event_loop env st =
     (let st' = (if loop_created_in_time env
                 then st\<lparr>g_loop := Some \<lparr>closed = False, tasks = []\<rparr>\<rparr> else st)
      in (g_loop st' \<noteq> None, st'))"

definition initialize_bot_async :: "startup_env \<Rightarrow> app_state \<Rightarrow> bool \<times> app_state" where
  "initialize_bot_async env st =
     (case bot_ctor env of
        Inl e \<Rightarrow> (False, st)
      | Inr b \<Rightarrow>
          (let st1 = st\<lparr>g_bot := Some b\<rparr>
           in case initialize_application env of
                Inl e \<Rightarrow> (False, st1)
              | Inr success \<Rightarrow>
                  if success then (True, st1\<lparr>bot_ready := True\<rparr>) else (False, st1)))"

text \<open>
  \<open>initialize_bot\<close>: the coroutine is queued on the loop and awaited for at most 60
  seconds. When it finishes in time it has left the queue and its result is returned;
  otherwise \<open>future.result\<close> raises and the answer is \<open>False\<close>.
\<close>

definition initialize_bot :: "startup_env \<Rightarrow> app_state \<Rightarrow> bool \<times> app_state" where
  "initialize_bot env st =
     (case g_loop st of
        None \<Rightarrow> (False, st)
      | Some l \<Rightarrow>
          (case run_coroutine_threadsafe InitializeBot l of
             Inl e \<Rightarrow> (False, st)
           | Inr l' \<Rightarrow>
               if init_in_time env then initialize_bot_async env st
               else (False, st\<lparr>g_loop := Some l'\<rparr>)))"

text \<open>\<open>startup\<close>: \<open>Inl code\<close> is \<open>exit(code)\<close>, \<open>Inr st\<close> the globals when startup completes.\<close>

definition startup :: "remote \<Rightarrow> startup_env \<Rightarrow> nat + app_state" where
  "startup rem env =
     (case start_event_loop env initial_state of
        (False, st1) \<Rightarrow> Inl 1
      | (True, st1) \<Rightarrow>
          (case initialize_bot env st1 of
             (False, st2) \<Rightarrow> Inl 1
           | (True, st2) \<Rightarrow>
               (let service_account_test_passed = fst (test_service_account_access rem st2)
                in Inr st2)))"

text \<open>
  The process: startup runs when the module is loaded; only when it completes are
  requests served, one after the other.
\<close>

fun serve :: "config \<Rightarrow> remote \<Rightarrow> app_state \<Rightarrow> http_request list \<Rightarrow> response list \<times> app_state" where
  "serve cfg rem st [] = ([], st)"
| "serve cfg rem st (r # rs) =
     (case handle cfg rem st r of
        (resp, st') \<Rightarrow> (case serve cfg rem st' rs of (resps, st'') \<Rightarrow> (resp # resps, st'')))"

datatype process_outcome = Exited nat | Served "response list" app_state

definition run_process :: "config \<Rightarrow> remote \<Rightarrow> startup_env \<Rightarrow> http_request list \<Rightarrow> process_outcome" where
  "run_process cfg rem env reqs =
     (case startup rem env of
        Inl code \<Rightarrow> Exited code
      | Inr st \<Rightarrow> (case serve cfg rem st reqs of (resps, st') \<Rightarrow> Served resps st'))"

text \<open>
  The values the readiness flag takes during a run: when the module is loaded, after
  \<open>start_event_loop\<close>, after \<open>initialize_bot\<close>, and after each request served.
\<close>

fun serve_flags :: "config \<Rightarrow> remote \<Rightarrow> app_state \<Rightarrow> http_request list \<Rightarrow> bool list" where
  "serve_flags cfg rem st [] = []"
| "serve_flags cfg rem st (r # rs) =
     (case handle cfg rem st r of (resp, st') \<Rightarrow> bot_ready st' # serve_flags cfg rem st' rs)"

definition flag_history :: "config \<Rightarrow> remote \<Rightarrow> startup_env \<Rightarrow> http_request list \<Rightarrow> bool list" where
  "flag_history cfg rem env reqs =
     (case start_event_loop env initial_state of
        (False, st1) \<Rightarrow> [bot_ready initial_state, bot_ready st1]
      | (True, st1) \<Rightarrow>
          (case initialize_bot env st1 of
             (False, st2) \<Rightarrow> [bot_ready initial_state, bot_ready st1, bot_ready st2]
           | (True, st2) \<Rightarrow>
               [bot_ready initial_state, bot_ready st1, bot_ready st2] @ serve_flags cfg rem st2 reqs))"

subsection \<open>Sample data\<close>

definition sample_service :: google_service where
  "sample_service = \<lparr>parent_folder_id = Some ''root-folder'', owner_email = Some ''owner@example.org'',
     service_drive = Some (Resource ''drive''), service_sheets = Some (Resource ''sheets''),
     credentials = Some (Credentials (Some ''svc@example.iam.gserviceaccount.com''))\<rparr>"

definition sample_bot :: telegram_bot where
  "sample_bot = \<lparr>bot_google_service = Some sample_service, application_bot = Inr (TgBot ''token'')\<rparr>"

definition ready_state :: app_state where
  "ready_state = \<lparr>g_bot = Some sample_bot, g_loop = Some \<lparr>closed = False, tasks = []\<rparr>, bot_ready = True\<rparr>"

text \<open>A minimal update, a body that is not JSON, and a document Telegram's parser refuses.\<close>

definition sample_de_json :: "json \<Rightarrow> tg_handle \<Rightarrow> exn + update" where
  "sample_de_json j h =
     (case j of JObj kvs \<Rightarrow> (if map_of kvs ''update_id'' = None
                              then Inl (Exception ''missing update_id'') else Inr (Update j))
              | _ \<Rightarrow> Inl (Exception ''not an object''))"

definition valid_request :: request where
  "valid_request = \<lparr>get_json = Inr (JObj [(''update_id'', JInt 1)]), de_json = sample_de_json\<rparr>"

definition unparseable_request :: request where
  "unparseable_request = \<lparr>get_json = Inl (Exception ''400 Bad Request''), de_json = sample_de_json\<rparr>"

definition empty_object_request :: request where
  "empty_object_request = \<lparr>get_json = Inr (JObj []), de_json = sample_de_json\<rparr>"

definition malformed_update_request :: request where
  "malformed_update_request = \<lparr>get_json = Inr (JArr [JInt 1]), de_json = sample_de_json\<rparr>"

text \<open>Remote sides: one where every call fails, one where only the permission grant
  fails, one where the parent folder can be fetched; and startup environments.\<close>

definition good_env :: startup_env where
  "good_env = \<lparr>loop_created_in_time = True, bot_ctor = Inr sample_bot,
               initialize_application = Inr True, init_in_time = True\<rparr>"

definition sample_config :: config where
  "sample_config = \<lparr>SPREADSHEET_ID = ''sheet-1'', SHEET_NAME = ''Sheet1''\<rparr>"

definition failing_remote :: remote where
  "failing_remote = \<lparr>files_create = (\<lambda>md media. Inl (Exception ''HttpError 500'')),
     permissions_create = (\<lambda>fid perm. Inl (Exception ''HttpError 403'')),
     files_get = (\<lambda>fid. Inl (Exception ''HttpError 404'')),
     about_get = Inl (Exception ''HttpError 503''),
     values_append = (\<lambda>sid rng row. Inl (Exception ''HttpError 500'')),
     media_file_upload = (\<lambda>path. Inr path)\<rparr>"

definition permission_denied_remote :: remote where
  "permission_denied_remote = failing_remote\<lparr>files_create := (\<lambda>md media. Inr [(''id'', ''folder-1'')])\<rparr>"

definition drive_ok_remote :: remote where
  "drive_ok_remote = failing_remote\<lparr>files_get := (\<lambda>fid. Inr [(''name'', ''Reports'')])\<rparr>"

definition no_loop_env :: startup_env where
  "no_loop_env = good_env\<lparr>loop_created_in_time := False\<rparr>"

definition init_timeout_env :: startup_env where
  "init_timeout_env = good_env\<lparr>init_in_time := False\<rparr>"


section \<open>Properties of the webhook dispatcher\<close>

text \<open>
  Claim C1. Whatever the request, while the readiness flag is false or the bot
  instance is absent the webhook answers 503 with status \<open>bot_not_ready\<close> and leaves
  the globals as they were: nothing is queued on the execution context, so no update
  reaches the bot before readiness.
\<close>

theorem webhook_not_ready:
  assumes "\<not> bot_ready st \<or> g_bot st = None"
  shows "webhook st rq = (jsonify [(''status'', JStr ''bot_not_ready'')] 503, st)
         \<and> status_code (fst (webhook st rq)) = 503
         \<and> pending (snd (webhook st rq)) = pending st"
  using assms by (auto simp: webhook_def jsonify_def)

theorem webhook_not_ready_witness:
  "\<not> bot_ready initial_state
   \<and> g_bot initial_state = None
   \<and> webhook initial_state valid_request
       = (jsonify [(''status'', JStr ''bot_not_ready'')] 503, initial_state)
   \<and> pending (snd (webhook initial_state valid_request)) = []"
  using webhook_not_ready [of initial_state valid_request]
  by (simp add: initial_state_def pending_def)

text \<open>
  Claim C2. Once the bot is ready and the loop is open, a body that parses to a
  non-empty document from which an update can be built is answered 200 with status
  \<open>ok\<close>; exactly one coroutine, the processing of that update, is added at the end of
  the loop's queue, where it is still waiting when the response is returned. Nothing
  else in the globals changes.
\<close>

theorem webhook_accepts_valid:
  assumes "bot_ready st" and "g_bot st = Some b" and "g_loop st = Some l" and "\<not> closed l"
    and "get_json rq = Inr j" and "py_truthy j"
    and "application_bot b = Inr h" and "de_json rq j h = Inr u"
  shows "webhook st rq
           = (jsonify [(''status'', JStr ''ok'')] 200,
              st\<lparr>g_loop := Some (l\<lparr>tasks := tasks l @ [ProcessUpdate u]\<rparr>)\<rparr>)
         \<and> pending (snd (webhook st rq)) = pending st @ [ProcessUpdate u]
         \<and> length (pending (snd (webhook st rq))) = Suc (length (pending st))"
  using assms
  by (simp add: webhook_def webhook_dispatch_def run_coroutine_threadsafe_def pending_def
      loop_unavailable_def)

theorem webhook_accepts_valid_witness:
  "webhook ready_state valid_request
     = (jsonify [(''status'', JStr ''ok'')] 200,
        ready_state\<lparr>g_loop := Some \<lparr>closed = False,
           tasks = [ProcessUpdate (Update (JObj [(''update_id'', JInt 1)]))]\<rparr>\<rparr>)
   \<and> pending (snd (webhook ready_state valid_request))
     = [ProcessUpdate (Update (JObj [(''update_id'', JInt 1)]))]"
  using webhook_accepts_valid [of ready_state sample_bot "\<lparr>closed = False, tasks = []\<rparr>"
      valid_request "JObj [(''update_id'', JInt 1)]" "TgBot ''token''"
      "Update (JObj [(''update_id'', JInt 1)])"]
  by (simp add: ready_state_def valid_request_def sample_bot_def sample_de_json_def pending_def)

text \<open>
  The sibling paths of the same handler: a parsed document that is falsy in Python
  (\<open>{}\<close>, \<open>[]\<close>, \<open>null\<close>, \<open>0\<close>, \<open>""\<close>, \<open>false\<close>) is answered 400 \<open>invalid_data\<close>, and a failure
  while the update is built or queued is answered 400 \<open>parse_error\<close>; neither queues
  anything.
\<close>

lemma webhook_rejects_falsy:
  assumes "bot_ready st" and "g_bot st = Some b" and "g_loop st = Some l" and "\<not> closed l"
    and "get_json rq = Inr j" and "\<not> py_truthy j"
  shows "webhook st rq = (jsonify [(''status'', JStr ''invalid_data'')] 400, st)"
  using assms by (simp add: webhook_def loop_unavailable_def)

lemma webhook_parse_error:
  assumes "bot_ready st" and "g_bot st = Some b" and "g_loop st = Some l" and "\<not> closed l"
    and "get_json rq = Inr j" and "py_truthy j"
    and "application_bot b = Inr h" and "de_json rq j h = Inl e"
  shows "webhook st rq = (jsonify [(''status'', JStr ''parse_error'')] 400, st)"
  using assms by (simp add: webhook_def webhook_dispatch_def loop_unavailable_def)

lemma webhook_sibling_paths:
  "webhook ready_state empty_object_request = (jsonify [(''status'', JStr ''invalid_data'')] 400, ready_state)
   \<and> webhook ready_state malformed_update_request
       = (jsonify [(''status'', JStr ''parse_error'')] 400, ready_state)"
  using webhook_rejects_falsy [of ready_state sample_bot "\<lparr>closed = False, tasks = []\<rparr>"
      empty_object_request "JObj []"]
    webhook_parse_error [of ready_state sample_bot "\<lparr>closed = False, tasks = []\<rparr>"
      malformed_update_request "JArr [JInt 1]" "TgBot ''token''" "Exception ''not an object''"]
  by (simp add: ready_state_def empty_object_request_def malformed_update_request_def
      sample_bot_def sample_de_json_def)

text \<open>
  Claim C3 at the point where the code departs from it. With the bot ready and the loop
  open, a body that is empty or not JSON makes \<open>request.get_json(force=True)\<close> raise;
  the exception reaches the outer handler and the answer is 500 with status \<open>error\<close>
  and the exception's message, not 400 with status \<open>invalid_data\<close>. Nothing is queued.
\<close>

theorem webhook_get_json_raises:
  assumes "bot_ready st" and "g_bot st = Some b" and "g_loop st = Some l" and "\<not> closed l"
    and "get_json rq = Inl e"
  shows "webhook st rq
           = (jsonify [(''status'', JStr ''error''), (''message'', JStr (str_exn e))] 500, st)
         \<and> status_code (fst (webhook st rq)) = 500
         \<and> pending (snd (webhook st rq)) = pending st"
  using assms by (simp add: webhook_def loop_unavailable_def jsonify_def)

theorem webhook_unparseable_body_500:
  "webhook ready_state unparseable_request
     = (jsonify [(''status'', JStr ''error''), (''message'', JStr ''400 Bad Request'')] 500,
        ready_state)
   \<and> status_code (fst (webhook ready_state unparseable_request)) = 500
   \<and> pending (snd (webhook ready_state unparseable_request)) = []"
  using webhook_get_json_raises [of ready_state sample_bot "\<lparr>closed = False, tasks = []\<rparr>"
      unparseable_request "Exception ''400 Bad Request''"]
  by (simp add: ready_state_def unparseable_request_def pending_def jsonify_def)

text \<open>
  Claim C10. The readiness check comes first: with the flag false or the bot absent
  the answer is \<open>bot_not_ready\<close> whatever the loop is, also absent or closed; and the
  answer is \<open>loop_error\<close> exactly when the flag is true, the bot is present and the
  loop is absent or closed.
\<close>

theorem webhook_guard_precedence:
  "(\<not> bot_ready st \<or> g_bot st = None \<longrightarrow>
      fst (webhook st rq) = jsonify [(''status'', JStr ''bot_not_ready'')] 503)
   \<and> (fst (webhook st rq) = jsonify [(''status'', JStr ''loop_error'')] 503
        \<longleftrightarrow> bot_ready st \<and> g_bot st \<noteq> None \<and> loop_unavailable (g_loop st))
   \<and> (body (fst (webhook st rq)) = JObj [(''status'', JStr ''loop_error'')]
        \<longleftrightarrow> bot_ready st \<and> g_bot st \<noteq> None \<and> loop_unavailable (g_loop st))"
  by (auto simp: webhook_def jsonify_def split: sum.splits)

theorem webhook_guard_precedence_witness:
  "fst (webhook (initial_state\<lparr>g_loop := Some \<lparr>closed = True, tasks = []\<rparr>\<rparr>) valid_request)
     = jsonify [(''status'', JStr ''bot_not_ready'')] 503
   \<and> fst (webhook initial_state valid_request)
     = jsonify [(''status'', JStr ''bot_not_ready'')] 503
   \<and> fst (webhook (ready_state\<lparr>g_loop := Some \<lparr>closed = True, tasks = []\<rparr>\<rparr>) valid_request)
     = jsonify [(''status'', JStr ''loop_error'')] 503
   \<and> fst (webhook (ready_state\<lparr>g_loop := None\<rparr>) valid_request)
     = jsonify [(''status'', JStr ''loop_error'')] 503"
  using webhook_guard_precedence [of "initial_state\<lparr>g_loop := Some \<lparr>closed = True, tasks = []\<rparr>\<rparr>" valid_request]
    webhook_guard_precedence [of initial_state valid_request]
    webhook_guard_precedence [of "ready_state\<lparr>g_loop := Some \<lparr>closed = True, tasks = []\<rparr>\<rparr>" valid_request]
    webhook_guard_precedence [of "ready_state\<lparr>g_loop := None\<rparr>" valid_request]
  by (simp add: initial_state_def ready_state_def loop_unavailable_def)


section \<open>Properties of the readiness flag and of startup\<close>

lemma handle_keeps_flag: "bot_ready (snd (handle cfg rem st r)) = bot_ready st"
  by (cases r) (auto simp: webhook_def split: sum.splits)

lemma serve_flags_const: "serve_flags cfg rem st reqs = replicate (length reqs) (bot_ready st)"
proof (induction reqs arbitrary: st)
  case Nil
  show ?case by simp
next
  case (Cons r rs)
  obtain resp st' where h: "handle cfg rem st r = (resp, st')" by (cases "handle cfg rem st r")
  have "bot_ready st' = bot_ready st" using handle_keeps_flag [of cfg rem st r] h by simp
  with Cons h show ?case by simp
qed

lemma initialize_bot_async_flag:
  "bot_ready (snd (initialize_bot_async env st))
     = (bot_ready st \<or> (\<exists>b. bot_ctor env = Inr b) \<and> initialize_application env = Inr True)"
  by (auto simp: initialize_bot_async_def Let_def split: sum.splits)

lemma initialize_bot_async_result:
  "fst (initialize_bot_async env st)
     = ((\<exists>b. bot_ctor env = Inr b) \<and> initialize_application env = Inr True)"
  by (auto simp: initialize_bot_async_def Let_def split: sum.splits)

lemma start_event_loop_flag: "bot_ready (snd (start_event_loop env st)) = bot_ready st"
  by (simp add: start_event_loop_def Let_def)

lemma initialize_bot_flag:
  "bot_ready (snd (initialize_bot env st)) \<Longrightarrow> \<not> bot_ready st \<Longrightarrow>
     fst (initialize_bot env st) \<and> (\<exists>b. bot_ctor env = Inr b) \<and> initialize_application env = Inr True"
  by (auto simp: initialize_bot_def run_coroutine_threadsafe_def initialize_bot_async_def Let_def
      split: option.splits sum.splits if_splits)

lemma initialize_bot_mono: "bot_ready st \<Longrightarrow> bot_ready (snd (initialize_bot env st))"
  by (auto simp: initialize_bot_def run_coroutine_threadsafe_def initialize_bot_async_def Let_def
      split: option.splits sum.splits if_splits)

lemma flag_history_tail:
  "\<exists>k r. flag_history cfg rem env reqs = [False, False] @ replicate k r"
proof -
  obtain ok1 st1 where s1: "start_event_loop env initial_state = (ok1, st1)"
    by (cases "start_event_loop env initial_state")
  have f1: "\<not> bot_ready st1"
    using start_event_loop_flag [of env initial_state] s1 by (simp add: initial_state_def)
  obtain ok2 st2 where s2: "initialize_bot env st1 = (ok2, st2)"
    by (cases "initialize_bot env st1")
  have "flag_history cfg rem env reqs
          = [False, False] @ replicate (if ok1 then if ok2 then Suc (length reqs) else 1 else 0) (bot_ready st2)"
    using s1 s2 f1 by (simp add: flag_history_def initial_state_def serve_flags_const)
  then show ?thesis by blast
qed

lemma flag_history_shape:
  "\<exists>n m. flag_history cfg rem env reqs = replicate n False @ replicate m True"
proof -
  obtain k r where h: "flag_history cfg rem env reqs = [False, False] @ replicate k r"
    using flag_history_tail by blast
  show ?thesis
  proof (cases r)
    case True
    with h have "flag_history cfg rem env reqs = replicate 2 False @ replicate k True"
      by (simp add: numeral_2_eq_2)
    then show ?thesis by blast
  next
    case False
    with h have "flag_history cfg rem env reqs = replicate (Suc (Suc k)) False @ replicate 0 True"
      by simp
    then show ?thesis by blast
  qed
qed

text \<open>
  Claim C4. The readiness flag is false when the module is loaded. No handler changes
  it and neither does \<open>start_event_loop\<close>; \<open>initialize_bot\<close> never clears it, and
  raises it only when the constructor of the bot and \<open>initialize_application\<close> both
  succeeded. Over a whole run the flag is therefore false for a while and true from
  then on: it goes from false to true at most once and never back.
\<close>

theorem readiness_flag_monotone:
  "bot_ready initial_state = False
   \<and> bot_ready (snd (handle cfg rem st r)) = bot_ready st
   \<and> bot_ready (snd (start_event_loop env st)) = bot_ready st
   \<and> (bot_ready st \<longrightarrow> bot_ready (snd (initialize_bot env st)))
   \<and> (\<not> bot_ready st \<and> bot_ready (snd (initialize_bot env st)) \<longrightarrow>
        fst (initialize_bot env st) \<and> (\<exists>b. bot_ctor env = Inr b) \<and> initialize_application env = Inr True)
   \<and> (\<exists>n m. flag_history cfg rem env reqs = replicate n False @ replicate m True)"
  using handle_keeps_flag [of cfg rem st r] start_event_loop_flag [of env st]
    initialize_bot_mono [of st env] initialize_bot_flag [of env st]
    flag_history_shape [of cfg rem env reqs]
  by (simp add: initial_state_def)

theorem readiness_flag_monotone_witness:
  "flag_history sample_config failing_remote good_env [GetHealth, PostWebhook valid_request]
      = [False, False, True, True, True]
   \<and> \<not> bot_ready initial_state
   \<and> bot_ready (snd (initialize_bot good_env (initial_state\<lparr>g_loop := Some \<lparr>closed = False, tasks = []\<rparr>\<rparr>)))
   \<and> bot_ready (snd (handle sample_config failing_remote ready_state (PostWebhook valid_request)))
   \<and> bot_ready (snd (initialize_bot good_env ready_state))"
  using readiness_flag_monotone [of sample_config failing_remote ready_state "PostWebhook valid_request" good_env
      "[GetHealth, PostWebhook valid_request]"]
    readiness_flag_monotone [of sample_config failing_remote
      "initial_state\<lparr>g_loop := Some \<lparr>closed = False, tasks = []\<rparr>\<rparr>" GetHealth good_env "[]"]
  by (simp add: flag_history_def start_event_loop_def initialize_bot_def initialize_bot_async_def
        run_coroutine_threadsafe_def initial_state_def good_env_def Let_def webhook_def
        sample_bot_def valid_request_def webhook_dispatch_def sample_de_json_def ready_state_def
        loop_unavailable_def)

lemma startup_exit_iff:
  "startup rem env = Inl 1
     \<longleftrightarrow> \<not> fst (start_event_loop env initial_state)
         \<or> \<not> fst (initialize_bot env (snd (start_event_loop env initial_state)))"
  by (auto simp: startup_def Let_def split: prod.splits bool.splits)

lemma start_event_loop_result:
  "fst (start_event_loop env initial_state) = loop_created_in_time env"
  by (simp add: start_event_loop_def initial_state_def Let_def)

lemma initialize_bot_result:
  assumes "g_loop st = Some l" and "\<not> closed l"
  shows "fst (initialize_bot env st)
     \<longleftrightarrow> init_in_time env \<and> (\<exists>b. bot_ctor env = Inr b) \<and> initialize_application env = Inr True"
  using assms
  by (auto simp: initialize_bot_def run_coroutine_threadsafe_def initialize_bot_async_result)

text \<open>
  Claim C8. When \<open>start_event_loop\<close> reports that the loop is not there after the wait,
  or \<open>initialize_bot\<close> reports failure, \<open>startup\<close> calls \<open>exit(1)\<close>: the process ends
  with code 1 and serves none of the requests sent to it.
\<close>

theorem startup_failure_fatal:
  assumes "\<not> fst (start_event_loop env initial_state)
           \<or> \<not> fst (initialize_bot env (snd (start_event_loop env initial_state)))"
  shows "startup rem env = Inl 1 \<and> run_process cfg rem env reqs = Exited 1
         \<and> (\<forall>resps st. run_process cfg rem env reqs \<noteq> Served resps st)"
  using assms startup_exit_iff [of rem env] by (simp add: run_process_def)

theorem startup_failure_fatal_witness:
  "\<not> fst (start_event_loop no_loop_env initial_state)
   \<and> run_process sample_config failing_remote no_loop_env [PostWebhook valid_request] = Exited 1
   \<and> \<not> fst (initialize_bot init_timeout_env (snd (start_event_loop init_timeout_env initial_state)))
   \<and> run_process sample_config failing_remote init_timeout_env [PostWebhook valid_request] = Exited 1"
  using startup_failure_fatal [of no_loop_env failing_remote sample_config "[PostWebhook valid_request]"]
    startup_failure_fatal [of init_timeout_env failing_remote sample_config "[PostWebhook valid_request]"]
  by (simp add: no_loop_env_def init_timeout_env_def good_env_def start_event_loop_def
      initialize_bot_def run_coroutine_threadsafe_def initial_state_def Let_def)

section \<open>Properties of the Google adapter\<close>

lemma except_return_no_raise: "fst (except_return r v) \<noteq> Inl e"
  by (cases r) (auto simp: except_return_def split: sum.splits)

lemma set_folder_permissions_returns: "fst (set_folder_permissions rem gs fid) = Inr ()"
  by (auto simp: set_folder_permissions_def set_folder_permissions_try_def except_return_def Let_def
      split: option.splits sum.splits)

lemma create_folder_created:
  assumes "service_drive gs = Some drv"
    and "files_create rem (folder_metadata gs n p) None = Inr folder"
  shows "fst (create_folder rem gs n p) = Inr (map_of folder ''id'')"
proof -
  obtain calls where "set_folder_permissions rem gs (map_of folder ''id'') = (Inr (), calls)"
    using set_folder_permissions_returns [of rem gs "map_of folder ''id''"]
    by (cases "set_folder_permissions rem gs (map_of folder ''id'')") auto
  with assms show ?thesis
    by (simp add: create_folder_def create_folder_try_def except_return_def Let_def)
qed

lemma create_folder_error:
  assumes "service_drive gs = Some drv"
    and "files_create rem (folder_metadata gs n p) None = Inl e"
  shows "create_folder rem gs n p = (Inr None, [DriveFilesCreate (folder_metadata gs n p) None])"
  using assms by (simp add: create_folder_def create_folder_try_def except_return_def Let_def)

lemma upload_error:
  assumes "service_drive gs = Some drv" and "media_file_upload rem path = Inr media"
    and "files_create rem \<lparr>name = fname, mime_type = None, parents = [fid]\<rparr> (Some media) = Inl e"
  shows "fst (upload_to_drive rem gs path fname fid) = Inr None"
  using assms by (simp add: upload_to_drive_def upload_to_drive_try_def except_return_def Let_def)

lemma test_access_value:
  "fst (gs_test_service_account_access rem gs)
     = Inr (service_drive gs \<noteq> None \<and> (\<exists>d. files_get rem (parent_folder_id gs) = Inr d)
            \<and> service_sheets gs \<noteq> None)"
  by (auto simp: gs_test_service_account_access_def drive_access_test_def except_return_def Let_def
      split: option.splits sum.splits prod.splits)

lemma test_access_calls:
  "snd (gs_test_service_account_access rem gs)
     = (if service_drive gs = None then [] else [DriveFilesGet (parent_folder_id gs)])"
  by (auto simp: gs_test_service_account_access_def drive_access_test_def except_return_def Let_def
      split: option.splits sum.splits prod.splits)

lemma quota_error:
  assumes "service_drive gs = Some drv" and "about_get rem = Inl e"
  shows "get_drive_quota_info rem gs = (Inr (Some quota_unavailable), [DriveAboutGet])"
  using assms by (simp add: get_drive_quota_info_def get_drive_quota_info_try_def except_return_def)

lemma quota_none_iff:
  "fst (get_drive_quota_info rem gs) = Inr None \<longleftrightarrow> service_drive gs = None"
  by (auto simp: get_drive_quota_info_def get_drive_quota_info_try_def except_return_def Let_def
      split: option.splits sum.splits)

lemma create_folder_permission_error:
  assumes "service_drive gs = Some drv"
    and "files_create rem (folder_metadata gs n p) None = Inr folder"
    and "owner_email gs = Some email" and "email \<noteq> []"
    and "permissions_create rem (map_of folder ''id'')
           [(''type'', ''user''), (''role'', ''owner''), (''emailAddress'', email)] = Inl e"
  shows "create_folder rem gs n p
           = (Inr (map_of folder ''id''),
              [DriveFilesCreate (folder_metadata gs n p) None,
               DrivePermissionsCreate (map_of folder ''id'')
                 [(''type'', ''user''), (''role'', ''owner''), (''emailAddress'', email)]])"
  using assms
  by (simp add: create_folder_def create_folder_try_def set_folder_permissions_def
      set_folder_permissions_try_def except_return_def Let_def)

lemma quota_success:
  assumes "service_drive gs = Some drv" and "about_get rem = Inr about"
  shows "fst (get_drive_quota_info rem gs)
     = Inr (Some [(''type'', ''service_account''),
                  (''service_account'',
                     dict_get (case user about of None \<Rightarrow> [] | Some d \<Rightarrow> d) ''emailAddress'' ''Unknown''),
                  (''note'', ''Service Account quotas are managed differently than personal accounts'')])"
  using assms
  by (simp add: get_drive_quota_info_def get_drive_quota_info_try_def except_return_def Let_def)

text \<open>
  Claim C5, as stated, fails: the ownership transfer is one of the remote calls made
  during \<open>create_folder\<close>, and when it raises after the folder was created the result
  is the folder's id, not \<open>None\<close>.
\<close>

theorem create_folder_permission_error_returns_id:
  "permissions_create permission_denied_remote (Some ''folder-1'')
       [(''type'', ''user''), (''role'', ''owner''), (''emailAddress'', ''owner@example.org'')]
     = Inl (Exception ''HttpError 403'')
   \<and> create_folder permission_denied_remote sample_service ''reports'' None
     = (Inr (Some ''folder-1''),
        [DriveFilesCreate (folder_metadata sample_service ''reports'' None) None,
         DrivePermissionsCreate (Some ''folder-1'')
           [(''type'', ''user''), (''role'', ''owner''), (''emailAddress'', ''owner@example.org'')]])
   \<and> fst (create_folder permission_denied_remote sample_service ''reports'' None) \<noteq> Inr None"
  by (simp add: create_folder_def create_folder_try_def set_folder_permissions_def
      set_folder_permissions_try_def except_return_def Let_def
      permission_denied_remote_def failing_remote_def sample_service_def)

text \<open>
  Claim C5, amended. \<open>create_folder\<close> never lets an exception out, whatever the remote
  side does. When the remote call that creates the folder raises, it returns \<open>None\<close>
  and makes no further call; when that call succeeds and the ownership transfer raises,
  the error is swallowed and the result is the \<open>id\<close> of the created folder.
\<close>

theorem create_folder_remote_errors:
  "(\<forall>e. fst (create_folder rem gs folder_name parent_arg) \<noteq> Inl e)
   \<and> (\<forall>drv e. service_drive gs = Some drv
         \<and> files_create rem (folder_metadata gs folder_name parent_arg) None = Inl e
        \<longrightarrow> create_folder rem gs folder_name parent_arg
            = (Inr None, [DriveFilesCreate (folder_metadata gs folder_name parent_arg) None]))
   \<and> (\<forall>drv folder email e. service_drive gs = Some drv
         \<and> files_create rem (folder_metadata gs folder_name parent_arg) None = Inr folder
         \<and> owner_email gs = Some email \<and> email \<noteq> []
         \<and> permissions_create rem (map_of folder ''id'')
              [(''type'', ''user''), (''role'', ''owner''), (''emailAddress'', email)] = Inl e
        \<longrightarrow> create_folder rem gs folder_name parent_arg
            = (Inr (map_of folder ''id''),
               [DriveFilesCreate (folder_metadata gs folder_name parent_arg) None,
                DrivePermissionsCreate (map_of folder ''id'')
                  [(''type'', ''user''), (''role'', ''owner''), (''emailAddress'', email)]]))"
proof -
  have a: "\<forall>e. fst (create_folder rem gs folder_name parent_arg) \<noteq> Inl e"
    by (simp add: create_folder_def except_return_no_raise)
  have b: "\<forall>drv e. service_drive gs = Some drv
         \<and> files_create rem (folder_metadata gs folder_name parent_arg) None = Inl e
        \<longrightarrow> create_folder rem gs folder_name parent_arg
            = (Inr None, [DriveFilesCreate (folder_metadata gs folder_name parent_arg) None])"
    using create_folder_error by blast
  have c: "\<forall>drv folder email e. service_drive gs = Some drv
         \<and> files_create rem (folder_metadata gs folder_name parent_arg) None = Inr folder
         \<and> owner_email gs = Some email \<and> email \<noteq> []
         \<and> permissions_create rem (map_of folder ''id'')
              [(''type'', ''user''), (''role'', ''owner''), (''emailAddress'', email)] = Inl e
        \<longrightarrow> create_folder rem gs folder_name parent_arg
            = (Inr (map_of folder ''id''),
               [DriveFilesCreate (folder_metadata gs folder_name parent_arg) None,
                DrivePermissionsCreate (map_of folder ''id'')
                  [(''type'', ''user''), (''role'', ''owner''), (''emailAddress'', email)]])"
    using create_folder_permission_error by blast
  from a b c show ?thesis by blast
qed

theorem create_folder_remote_errors_witness:
  "service_drive sample_service = Some (Resource ''drive'')
   \<and> files_create failing_remote (folder_metadata sample_service ''reports'' None) None
       = Inl (Exception ''HttpError 500'')
   \<and> create_folder failing_remote sample_service ''reports'' None
       = (Inr None, [DriveFilesCreate (folder_metadata sample_service ''reports'' None) None])
   \<and> files_create permission_denied_remote (folder_metadata sample_service ''reports'' None) None
       = Inr [(''id'', ''folder-1'')]
   \<and> permissions_create permission_denied_remote (Some ''folder-1'')
       [(''type'', ''user''), (''role'', ''owner''), (''emailAddress'', ''owner@example.org'')]
       = Inl (Exception ''HttpError 403'')
   \<and> fst (create_folder permission_denied_remote sample_service ''reports'' None)
       = Inr (Some ''folder-1'')"
  using create_folder_remote_errors [of failing_remote sample_service "''reports''" None]
    create_folder_remote_errors [of permission_denied_remote sample_service "''reports''" None]
  by (simp add: sample_service_def failing_remote_def permission_denied_remote_def)

text \<open>
  Claim C6. Once the folder has been created, \<open>create_folder\<close> returns the \<open>id\<close> of the
  created folder whatever the ownership transfer does: replacing the outcome of the
  permission call by any other, a failure included, leaves the result the same.
\<close>

theorem create_folder_permission_failure_nonfatal:
  assumes "service_drive gs = Some drv"
    and "files_create rem (folder_metadata gs folder_name parent_arg) None = Inr folder"
  shows "fst (create_folder rem gs folder_name parent_arg) = Inr (map_of folder ''id'')
         \<and> fst (create_folder (rem\<lparr>permissions_create := outcome\<rparr>) gs folder_name parent_arg)
           = fst (create_folder rem gs folder_name parent_arg)"
proof -
  have "files_create (rem\<lparr>permissions_create := outcome\<rparr>) (folder_metadata gs folder_name parent_arg) None
          = Inr folder"
    using assms(2) by simp
  then show ?thesis
    using create_folder_created [OF assms(1) assms(2)]
      create_folder_created [OF assms(1), of "rem\<lparr>permissions_create := outcome\<rparr>" folder_name parent_arg folder]
    by simp
qed

theorem create_folder_permission_failure_nonfatal_witness:
  "permissions_create permission_denied_remote (Some ''folder-1'')
       [(''type'', ''user''), (''role'', ''owner''), (''emailAddress'', ''owner@example.org'')]
     = Inl (Exception ''HttpError 403'')
   \<and> fst (create_folder permission_denied_remote sample_service ''reports'' None) = Inr (Some ''folder-1'')"
  using create_folder_permission_failure_nonfatal [of sample_service "Resource ''drive''"
      permission_denied_remote "''reports''" None "[(''id'', ''folder-1'')]"]
  by (simp add: sample_service_def permission_denied_remote_def failing_remote_def)

text \<open>
  Claim C7, as stated, fails for \<open>get_drive_quota_info\<close>: when the quota query raises,
  the handler returns a dictionary, not \<open>None\<close>.
\<close>

theorem quota_failure_not_null:
  "fst (get_drive_quota_info failing_remote sample_service) = Inr (Some quota_unavailable)
   \<and> fst (get_drive_quota_info failing_remote sample_service) \<noteq> Inr None"
  by (simp add: get_drive_quota_info_def get_drive_quota_info_try_def except_return_def
      failing_remote_def sample_service_def)

text \<open>
  Claim C7, amended. No operation of the adapter lets an exception out. With the Drive
  handle built, \<open>create_folder\<close> returns \<open>None\<close> when the call creating the folder raises
  (once the folder is created it returns the folder's id, also when the ownership
  transfer raises), \<open>upload_to_drive\<close> returns \<open>None\<close> when the upload raises, and
  \<open>test_service_account_access\<close> returns \<open>False\<close> when the fetch of the parent folder
  raises. \<open>get_drive_quota_info\<close> returns, when the quota query raises, the dictionary
  saying that quota information is not available, and when the query succeeds the
  information read from it; it returns \<open>None\<close> exactly when the Drive handle is absent.
\<close>

theorem adapter_sentinels:
  "(\<forall>e. fst (create_folder rem gs folder_name parent_arg) \<noteq> Inl e
         \<and> fst (upload_to_drive rem gs path fname fid) \<noteq> Inl e
         \<and> fst (gs_test_service_account_access rem gs) \<noteq> Inl e
         \<and> fst (get_drive_quota_info rem gs) \<noteq> Inl e)
   \<and> (\<forall>drv e. service_drive gs = Some drv
         \<and> files_create rem (folder_metadata gs folder_name parent_arg) None = Inl e
        \<longrightarrow> fst (create_folder rem gs folder_name parent_arg) = Inr None)
   \<and> (\<forall>drv folder. service_drive gs = Some drv
         \<and> files_create rem (folder_metadata gs folder_name parent_arg) None = Inr folder
        \<longrightarrow> fst (create_folder rem gs folder_name parent_arg) = Inr (map_of folder ''id''))
   \<and> (\<forall>drv e media. service_drive gs = Some drv \<and> media_file_upload rem path = Inr media
         \<and> files_create rem \<lparr>name = fname, mime_type = None, parents = [fid]\<rparr> (Some media) = Inl e
        \<longrightarrow> fst (upload_to_drive rem gs path fname fid) = Inr None)
   \<and> (\<forall>e. files_get rem (parent_folder_id gs) = Inl e
        \<longrightarrow> fst (gs_test_service_account_access rem gs) = Inr False)
   \<and> (\<forall>drv e. service_drive gs = Some drv \<and> about_get rem = Inl e
        \<longrightarrow> fst (get_drive_quota_info rem gs) = Inr (Some quota_unavailable))
   \<and> (\<forall>drv about. service_drive gs = Some drv \<and> about_get rem = Inr about
        \<longrightarrow> fst (get_drive_quota_info rem gs)
            = Inr (Some [(''type'', ''service_account''),
                         (''service_account'',
                            dict_get (case user about of None \<Rightarrow> [] | Some d \<Rightarrow> d)
                              ''emailAddress'' ''Unknown''),
                         (''note'', ''Service Account quotas are managed differently than personal accounts'')]))
   \<and> (fst (get_drive_quota_info rem gs) = Inr None \<longleftrightarrow> service_drive gs = None)"
proof -
  have n: "\<forall>e. fst (create_folder rem gs folder_name parent_arg) \<noteq> Inl e
         \<and> fst (upload_to_drive rem gs path fname fid) \<noteq> Inl e
         \<and> fst (gs_test_service_account_access rem gs) \<noteq> Inl e
         \<and> fst (get_drive_quota_info rem gs) \<noteq> Inl e"
    by (simp add: create_folder_def upload_to_drive_def gs_test_service_account_access_def
        get_drive_quota_info_def except_return_no_raise)
  have a: "\<forall>drv e. service_drive gs = Some drv
         \<and> files_create rem (folder_metadata gs folder_name parent_arg) None = Inl e
        \<longrightarrow> fst (create_folder rem gs folder_name parent_arg) = Inr None"
    using create_folder_error [of gs _ rem folder_name parent_arg] by auto
  have a': "\<forall>drv folder. service_drive gs = Some drv
         \<and> files_create rem (folder_metadata gs folder_name parent_arg) None = Inr folder
        \<longrightarrow> fst (create_folder rem gs folder_name parent_arg) = Inr (map_of folder ''id'')"
    using create_folder_created by blast
  have b: "\<forall>drv e media. service_drive gs = Some drv \<and> media_file_upload rem path = Inr media
         \<and> files_create rem \<lparr>name = fname, mime_type = None, parents = [fid]\<rparr> (Some media) = Inl e
        \<longrightarrow> fst (upload_to_drive rem gs path fname fid) = Inr None"
    using upload_error by blast
  have c: "\<forall>e. files_get rem (parent_folder_id gs) = Inl e
        \<longrightarrow> fst (gs_test_service_account_access rem gs) = Inr False"
    by (simp add: test_access_value)
  have d: "\<forall>drv e. service_drive gs = Some drv \<and> about_get rem = Inl e
        \<longrightarrow> fst (get_drive_quota_info rem gs) = Inr (Some quota_unavailable)"
    using quota_error [of gs _ rem] by auto
  have d': "\<forall>drv about. service_drive gs = Some drv \<and> about_get rem = Inr about
        \<longrightarrow> fst (get_drive_quota_info rem gs)
            = Inr (Some [(''type'', ''service_account''),
                         (''service_account'',
                            dict_get (case user about of None \<Rightarrow> [] | Some d \<Rightarrow> d)
                              ''emailAddress'' ''Unknown''),
                         (''note'', ''Service Account quotas are managed differently than personal accounts'')])"
    using quota_success by blast
  have q: "fst (get_drive_quota_info rem gs) = Inr None \<longleftrightarrow> service_drive gs = None"
    by (rule quota_none_iff)
  from n a a' b c d d' q show ?thesis by blast
qed

theorem adapter_sentinels_witness:
  "service_drive sample_service = Some (Resource ''drive'')
   \<and> fst (create_folder failing_remote sample_service ''reports'' None) = Inr None
   \<and> fst (create_folder permission_denied_remote sample_service ''reports'' None)
       = Inr (Some ''folder-1'')
   \<and> fst (upload_to_drive failing_remote sample_service ''/tmp/a.jpg'' ''a.jpg'' ''folder-1'') = Inr None
   \<and> fst (gs_test_service_account_access failing_remote sample_service) = Inr False
   \<and> about_get failing_remote = Inl (Exception ''HttpError 503'')
   \<and> fst (get_drive_quota_info failing_remote sample_service) = Inr (Some quota_unavailable)
   \<and> fst (get_drive_quota_info failing_remote (sample_service\<lparr>service_drive := None\<rparr>)) = Inr None"
  using adapter_sentinels [of failing_remote sample_service "''reports''" None
      "''/tmp/a.jpg''" "''a.jpg''" "''folder-1''"]
    adapter_sentinels [of permission_denied_remote sample_service "''reports''" None
      "''/tmp/a.jpg''" "''a.jpg''" "''folder-1''"]
    adapter_sentinels [of failing_remote "sample_service\<lparr>service_drive := None\<rparr>" "''reports''" None
      "''/tmp/a.jpg''" "''a.jpg''" "''folder-1''"]
  by (simp add: sample_service_def failing_remote_def permission_denied_remote_def folder_metadata_def)

text \<open>
  Claim C9. \<open>test_service_account_access\<close> returns \<open>True\<close> exactly when the Drive handle
  is built, the fetch of the parent folder succeeds and the Sheets handle is built. The
  only remote call it can make is that fetch: no call goes to the Sheets API.
\<close>

theorem test_access_iff:
  "fst (gs_test_service_account_access rem gs)
     = Inr (service_drive gs \<noteq> None \<and> (\<exists>d. files_get rem (parent_folder_id gs) = Inr d)
            \<and> service_sheets gs \<noteq> None)
   \<and> snd (gs_test_service_account_access rem gs)
     = (if service_drive gs = None then [] else [DriveFilesGet (parent_folder_id gs)])
   \<and> \<not> list_ex is_sheets_call (snd (gs_test_service_account_access rem gs))"
  by (simp add: test_access_value test_access_calls)

theorem test_access_iff_witness:
  "gs_test_service_account_access drive_ok_remote sample_service
     = (Inr True, [DriveFilesGet (Some ''root-folder'')])
   \<and> fst (gs_test_service_account_access drive_ok_remote (sample_service\<lparr>service_sheets := None\<rparr>))
     = Inr False
   \<and> fst (gs_test_service_account_access failing_remote sample_service) = Inr False"
  using test_access_iff [of drive_ok_remote sample_service]
    test_access_iff [of drive_ok_remote "sample_service\<lparr>service_sheets := None\<rparr>"]
    test_access_iff [of failing_remote sample_service]
  by (cases "gs_test_service_account_access drive_ok_remote sample_service")
     (simp add: sample_service_def drive_ok_remote_def failing_remote_def)

end
